theory Spec2Isabelle
  imports Complex_Main
begin

section \<open>The submission orchestrator of \<^verbatim>\<open>frontend/src/App.tsx\<close>\<close>

text \<open>
  The component \<^verbatim>\<open>App\<close> keeps its state in React hooks and changes it from event
  handlers. Each handler is embedded as a function from the state it closes over (and the
  event, or the behaviour of the browser and the network) to the state after the handler
  has run to completion. The \<^verbatim>\<open>await\<close>s of \<^verbatim>\<open>handleAnalyze\<close> are resolved by an
  environment that says what \<^verbatim>\<open>fetch\<close> and the body readers return; no other event is
  interleaved with a running handler.
\<close>

subsection \<open>JavaScript strings and the built-ins the handlers call\<close>

text \<open>
  A JavaScript string is a sequence of UTF-16 code units, here the list of their numbers
  (all below \<open>0x10000\<close>; no definition looks at the bound). Text that comes from the
  user, the server or the browser is such a string. A string literal of the program is
  ASCII, one code unit for each character, and \<open>lit\<close> gives its code units. Text that the
  program only ever writes as a literal and never compares (URLs, the HTTP method, header
  names, the alert message, the tab names) is kept as an Isabelle string.
\<close>

type_synonym js_string = "nat list"

definition lit :: "string \<Rightarrow> js_string" where
  "lit s = map of_char s"

text \<open>
  The code units that \<^verbatim>\<open>String.prototype.trim\<close> strips: the ECMAScript white space
  (TAB, VT, FF, U+FEFF and the Unicode class Zs: U+0020, U+00A0, U+1680, U+2000 to U+200A,
  U+202F, U+205F, U+3000) and the line terminators (LF, CR, U+2028, U+2029). Each is a
  single code unit, and no surrogate is among them.
\<close>

definition isWhiteSpace :: "nat \<Rightarrow> bool" where
  "isWhiteSpace u \<longleftrightarrow>
     u \<in> set [0x0009, 0x000A, 0x000B, 0x000C, 0x000D, 0x0020, 0x00A0, 0x1680,
              0x2000, 0x2001, 0x2002, 0x2003, 0x2004, 0x2005, 0x2006, 0x2007, 0x2008,
              0x2009, 0x200A, 0x2028, 0x2029, 0x202F, 0x205F, 0x3000, 0xFEFF]"

definition trim :: "js_string \<Rightarrow> js_string" where
  "trim s = rev (dropWhile isWhiteSpace (rev (dropWhile isWhiteSpace s)))"

text \<open>
  \<^verbatim>\<open>String.prototype.toLowerCase\<close>. On a string whose code units are all Basic Latin
  (below \<open>0x80\<close>) the Unicode case conversion changes \<^verbatim>\<open>A\<close>..\<^verbatim>\<open>Z\<close> and nothing else.
  On every other string the result depends on the Unicode tables of the host (case
  mappings, special casing, final sigma, surrogate pairs); it is the value of the host's
  function \<open>U\<close>, a parameter of the model.
\<close>

definition lowerBasicLatin :: "nat \<Rightarrow> nat" where
  "lowerBasicLatin u = (if 0x41 \<le> u \<and> u \<le> 0x5A then u + 0x20 else u)"

definition toLowerCase :: "(js_string \<Rightarrow> js_string) \<Rightarrow> js_string \<Rightarrow> js_string" where
  "toLowerCase U s = (if list_all (\<lambda>u. u < 0x80) s then map lowerBasicLatin s else U s)"

text \<open>
  A host function for the closed examples: what \<^verbatim>\<open>toLowerCase\<close> returns on a string
  whose code units are all below \<open>0x100\<close> (the capitals of ISO 8859-1 are \<^verbatim>\<open>A\<close>..\<^verbatim>\<open>Z\<close>,
  U+00C0..U+00D6 and U+00D8..U+00DE, each \<open>0x20\<close> below its small letter).
\<close>

definition lowerLatin1 :: "nat \<Rightarrow> nat" where
  "lowerLatin1 u =
     (if (0x41 \<le> u \<and> u \<le> 0x5A) \<or> (0xC0 \<le> u \<and> u \<le> 0xDE \<and> u \<noteq> 0xD7) then u + 0x20
      else u)"

text \<open>\<^verbatim>\<open>String(n)\<close> for a non-negative integer: its decimal digits.\<close>

fun String_of :: "nat \<Rightarrow> js_string" where
  "String_of n =
     (if n < 10 then [0x30 + n] else String_of (n div 10) @ [0x30 + n mod 10])"

declare String_of.simps [simp del]

subsection \<open>JavaScript values\<close>

text \<open>
  JavaScript values, as far as a parsed JSON body and the expressions over it produce
  them. An object is the list of its own properties. \<^verbatim>\<open>response.json()\<close> never
  resolves to a value that contains \<open>JUndefined\<close>; reading a missing property does.
\<close>

datatype js_value =
    JUndefined
  | JNull
  | JBool bool
  | JNum rat
  | JStr js_string
  | JArr "js_value list"
  | JObj "(js_string \<times> js_value) list"

text \<open>Truthiness, as \<^verbatim>\<open>||\<close> tests it.\<close>

fun truthy :: "js_value \<Rightarrow> bool" where
  "truthy JUndefined = False"
| "truthy JNull = False"
| "truthy (JBool b) = b"
| "truthy (JNum n) = (n \<noteq> 0)"
| "truthy (JStr s) = (s \<noteq> [])"
| "truthy (JArr xs) = True"
| "truthy (JObj kvs) = True"

text \<open>\<^verbatim>\<open>a || b\<close>\<close>

definition or_else :: "js_value \<Rightarrow> js_value \<Rightarrow> js_value" where
  "or_else a b = (if truthy a then a else b)"

text \<open>
  \<^verbatim>\<open>v.k\<close> for a value \<open>v\<close> other than \<^verbatim>\<open>null\<close> and \<^verbatim>\<open>undefined\<close>, and \<open>k\<close> one of
  the property names the transformation reads (\<^verbatim>\<open>clauses\<close>, \<^verbatim>\<open>id\<close>, \<^verbatim>\<open>text\<close>,
  \<^verbatim>\<open>clause_text\<close>, \<^verbatim>\<open>risk_level\<close>, \<^verbatim>\<open>severity\<close>, \<^verbatim>\<open>explanation\<close>, \<^verbatim>\<open>reason\<close>):
  only an object can have it.
\<close>

fun member :: "js_value \<Rightarrow> js_string \<Rightarrow> js_value" where
  "member (JObj kvs) k = (case map_of kvs k of Some v \<Rightarrow> v | None \<Rightarrow> JUndefined)"
| "member v k = JUndefined"

text \<open>Reading a property of \<^verbatim>\<open>null\<close> or \<^verbatim>\<open>undefined\<close> throws.\<close>

definition nullish :: "js_value \<Rightarrow> bool" where
  "nullish v \<longleftrightarrow> v = JNull \<or> v = JUndefined"

datatype error =
    NetworkError         \<comment> \<open>\<^verbatim>\<open>fetch\<close> or a body reader rejects\<close>
  | ApiError js_string   \<comment> \<open>\<^verbatim>\<open>throw new Error(`API Error: ...`)\<close>\<close>
  | SyntaxError          \<comment> \<open>\<^verbatim>\<open>response.json()\<close> rejects: the body is not JSON\<close>
  | TypeError            \<comment> \<open>a property of \<^verbatim>\<open>null\<close> is read, or a non-function is called\<close>

text \<open>\<^verbatim>\<open>v.toLowerCase()\<close>: only a string has the method.\<close>

fun call_toLowerCase :: "(js_string \<Rightarrow> js_string) \<Rightarrow> js_value \<Rightarrow> error + js_string" where
  "call_toLowerCase U (JStr s) = Inr (toLowerCase U s)"
| "call_toLowerCase U v = Inl TypeError"

subsection \<open>The data of the component\<close>

record File =
  file_name :: js_string
  file_size :: nat
  file_type :: js_string

text \<open>
  \<^verbatim>\<open>interface Clause\<close>. The type annotations are erased at run time, so \<^verbatim>\<open>id\<close>,
  \<^verbatim>\<open>text\<close> and \<^verbatim>\<open>explanation\<close> hold whatever truthy value the server sent;
  \<^verbatim>\<open>riskLevel\<close> is the result of \<^verbatim>\<open>toLowerCase\<close> and so a string.
\<close>

record clause =
  id' :: js_value
  text' :: js_value
  riskLevel :: js_string
  explanation :: js_value

record audio_element =
  paused :: bool
  currentTime :: rat

text \<open>
  The \<^verbatim>\<open>useState\<close> cells and \<^verbatim>\<open>audioRef.current\<close>, followed by the two browser resources
  the handlers allocate: the interval timers started by \<^verbatim>\<open>setInterval\<close> (their number)
  and the object URLs minted by \<^verbatim>\<open>URL.createObjectURL\<close> that have not been revoked.
\<close>

record app_state =
  selectedFile :: "File option"
  pastedText :: js_string
  isAnalyzing :: bool
  results :: "clause list"
  uploadProgress :: nat
  activeTab :: string
  isDragging :: bool
  podcastMode :: bool
  audioUrl :: "js_string option"
  isPlaying :: bool
  audioRef :: "audio_element option"
  uploadIntervals :: nat
  objectURLs :: "js_string list"

subsection \<open>File selection\<close>

text \<open>\<^verbatim>\<open>simulateUpload\<close>: \<^verbatim>\<open>setUploadProgress(0)\<close> and a new interval timer.\<close>

definition simulateUpload :: "app_state \<Rightarrow> app_state" where
  "simulateUpload s = s\<lparr>uploadProgress := 0, uploadIntervals := Suc (uploadIntervals s)\<rparr>"

text \<open>
  \<^verbatim>\<open>handleFileChange\<close>; the argument is \<^verbatim>\<open>e.target.files\<close>, which may be \<^verbatim>\<open>null\<close>.
  A \<^verbatim>\<open>File\<close> object is truthy.
\<close>

definition handleFileChange :: "app_state \<Rightarrow> File list option \<Rightarrow> app_state" where
  "handleFileChange s files =
     (case files of
        None \<Rightarrow> s
      | Some [] \<Rightarrow> s
      | Some (file # rest) \<Rightarrow> simulateUpload (s\<lparr>selectedFile := Some file\<rparr>))"

text \<open>\<^verbatim>\<open>handleDrop\<close>; the argument is \<^verbatim>\<open>e.dataTransfer.files\<close>.\<close>

definition handleDrop :: "app_state \<Rightarrow> File list \<Rightarrow> app_state" where
  "handleDrop s files =
     (let s1 = s\<lparr>isDragging := False\<rparr> in
      case files of
        [] \<Rightarrow> s1
      | file # rest \<Rightarrow>
          if file_type file = lit ''application/pdf''
             \<or> file_type file
                 = lit ''application/vnd.openxmlformats-officedocument.wordprocessingml.document''
             \<or> file_type file = lit ''text/plain''
          then simulateUpload (s1\<lparr>selectedFile := Some file\<rparr>)
          else s1)"

subsection \<open>Normalising the analysis payload\<close>

text \<open>
  The arrow function passed to \<^verbatim>\<open>map\<close>. Every property is read from the same
  \<^verbatim>\<open>clause\<close>, so the first read throws or none does. \<open>U\<close> is the host's part of
  \<^verbatim>\<open>toLowerCase\<close>.
\<close>

definition transformClause ::
    "(js_string \<Rightarrow> js_string) \<Rightarrow> js_value \<Rightarrow> nat \<Rightarrow> error + clause" where
  "transformClause U c index =
     (if nullish c then Inl TypeError
      else
        case call_toLowerCase U
               (or_else (or_else (member c (lit ''risk_level'')) (member c (lit ''severity'')))
                  (JStr (lit ''medium''))) of
          Inl e \<Rightarrow> Inl e
        | Inr level \<Rightarrow>
            Inr \<lparr>id' = or_else (member c (lit ''id'')) (JStr (String_of (index + 1))),
                 text' = or_else (or_else (member c (lit ''text''))
                                    (member c (lit ''clause_text'')))
                          (JStr (lit '''')),
                 riskLevel = level,
                 explanation = or_else (or_else (member c (lit ''explanation''))
                                          (member c (lit ''reason'')))
                                (JStr (lit ''''))\<rparr>)"

text \<open>\<^verbatim>\<open>Array.prototype.map\<close> with the index, stopping at the first exception.\<close>

fun mapClauses ::
    "(js_string \<Rightarrow> js_string) \<Rightarrow> js_value list \<Rightarrow> nat \<Rightarrow> error + clause list" where
  "mapClauses U [] index = Inr []"
| "mapClauses U (c # cs) index =
     (case transformClause U c index of
        Inl e \<Rightarrow> Inl e
      | Inr x \<Rightarrow>
          (case mapClauses U cs (index + 1) of Inl e \<Rightarrow> Inl e | Inr xs \<Rightarrow> Inr (x # xs)))"

text \<open>
  \<^verbatim>\<open>data.clauses?.map(...) || []\<close>: \<^verbatim>\<open>data.clauses\<close> throws when \<^verbatim>\<open>data\<close> is
  \<^verbatim>\<open>null\<close>; \<^verbatim>\<open>?.\<close> short-circuits to \<^verbatim>\<open>undefined\<close> when \<^verbatim>\<open>data.clauses\<close> is
  \<^verbatim>\<open>undefined\<close> or \<^verbatim>\<open>null\<close>, and \<^verbatim>\<open>|| []\<close> turns that into the empty array; any other
  value that is not an array has no function \<^verbatim>\<open>map\<close>, and calling it throws. The array
  that \<^verbatim>\<open>map\<close> returns is truthy.
\<close>

definition transformedResults ::
    "(js_string \<Rightarrow> js_string) \<Rightarrow> js_value \<Rightarrow> error + clause list" where
  "transformedResults U data =
     (if nullish data then Inl TypeError
      else
        case member data (lit ''clauses'') of
          JUndefined \<Rightarrow> Inr []
        | JNull \<Rightarrow> Inr []
        | JArr cs \<Rightarrow> mapClauses U cs 0
        | v \<Rightarrow> Inl TypeError)"

subsection \<open>Submission\<close>

datatype body =
    FormData "(string \<times> File) list"
  | JSON_stringify js_value

record request =
  url :: string
  http_method :: string
  headers :: "(string \<times> string) list"
  body :: body

type_synonym blob = string

text \<open>
  A \<^verbatim>\<open>Response\<close>: \<open>blob\<close> and \<open>json\<close> are what the two body readers resolve to, \<open>None\<close>
  when the promise rejects.
\<close>

record response =
  ok :: bool
  statusText :: js_string
  blob :: "blob option"
  json :: "js_value option"

datatype reply = Rejected | Resolved response

text \<open>
  What the host provides: the network behind \<^verbatim>\<open>fetch\<close>, \<^verbatim>\<open>URL.createObjectURL\<close>, and the
  Unicode part of \<^verbatim>\<open>String.prototype.toLowerCase\<close>.
\<close>

record env =
  fetch :: "request \<Rightarrow> reply"
  createObjectURL :: "blob \<Rightarrow> js_string"
  hostToLowerCase :: "js_string \<Rightarrow> js_string"

text \<open>The constant function: a network that gives one answer, a browser that mints one URL.\<close>

definition always :: "'b \<Rightarrow> 'a \<Rightarrow> 'b" where
  "always y x = y"

text \<open>A network with one route: it gives the reply at one URL and is unreachable elsewhere.\<close>

definition only_serves :: "string \<Rightarrow> reply \<Rightarrow> request \<Rightarrow> reply" where
  "only_serves u answer req = (if url req = u then answer else Rejected)"

text \<open>
  \<^verbatim>\<open>await fetch(url, init)\<close>: the request is handed to the network, which is recorded,
  and the network's reply to this request comes back.
\<close>

definition await_fetch :: "env \<Rightarrow> request \<Rightarrow> request list \<times> reply" where
  "await_fetch e req = ([req], fetch e req)"

definition API_BASE_URL :: string where
  "API_BASE_URL = ''http://localhost:8000''"

definition file_request :: "string \<Rightarrow> File \<Rightarrow> request" where
  "file_request path f =
     \<lparr>url = API_BASE_URL @ path, http_method = ''POST'', headers = [],
      body = FormData [(''file'', f)]\<rparr>"

definition text_request :: "string \<Rightarrow> js_string \<Rightarrow> request" where
  "text_request path t =
     \<lparr>url = API_BASE_URL @ path, http_method = ''POST'',
      headers = [(''Content-Type'', ''application/json'')],
      body = JSON_stringify (JObj [(lit ''text'', JStr t)])\<rparr>"

text \<open>The request each branch of \<^verbatim>\<open>handleAnalyze\<close> passes to \<^verbatim>\<open>fetch\<close>.\<close>

definition request_of :: "app_state \<Rightarrow> request" where
  "request_of s =
     (if podcastMode s then
        (case selectedFile s of
           Some f \<Rightarrow> file_request ''/conversation_clauses_file'' f
         | None \<Rightarrow> text_request ''/conversation_clauses'' (pastedText s))
      else
        (case selectedFile s of
           Some f \<Rightarrow> file_request ''/get_clauses'' f
         | None \<Rightarrow> text_request ''/get_clauses'' (pastedText s)))"

text \<open>
  The body of the \<^verbatim>\<open>try\<close> block, run on the state after \<^verbatim>\<open>setIsAnalyzing(true)\<close>. It
  returns the requests that were handed to \<^verbatim>\<open>fetch\<close>, and \<open>Inl\<close> the exception that
  reaches \<^verbatim>\<open>catch\<close> or \<open>Inr\<close> the state after the setters of the branch.
\<close>

definition try_block :: "app_state \<Rightarrow> env \<Rightarrow> request list \<times> (error + app_state)" where
  "try_block s e =
     (if podcastMode s then
        (case await_fetch e (request_of s) of
           (sent, Rejected) \<Rightarrow> (sent, Inl NetworkError)
         | (sent, Resolved r) \<Rightarrow>
             (sent,
              if \<not> ok r then Inl (ApiError (lit ''API Error: '' @ statusText r))
              else
                case blob r of
                  None \<Rightarrow> Inl NetworkError
                | Some b \<Rightarrow>
                    Inr (s\<lparr>audioUrl := Some (createObjectURL e b), results := [],
                           objectURLs := objectURLs s @ [createObjectURL e b]\<rparr>)))
      else
        (case await_fetch e (request_of s) of
           (sent, Rejected) \<Rightarrow> (sent, Inl NetworkError)
         | (sent, Resolved r) \<Rightarrow>
             (sent,
              if \<not> ok r then Inl (ApiError (lit ''API Error: '' @ statusText r))
              else
                case json r of
                  None \<Rightarrow> Inl SyntaxError
                | Some data \<Rightarrow>
                    (case transformedResults (hostToLowerCase e) data of
                       Inl x \<Rightarrow> Inl x
                     | Inr transformed \<Rightarrow>
                         Inr (s\<lparr>results := transformed, audioUrl := None\<rparr>)))))"

definition alert_message :: string where
  "alert_message =
     ''Failed to analyze document. Please make sure your API is running on http://localhost:8000''"

text \<open>
  What one call of \<^verbatim>\<open>handleAnalyze\<close> does: the requests handed to \<^verbatim>\<open>fetch\<close>, the state
  shown while the request is awaited (\<open>None\<close> when the guard returns at once), the
  \<^verbatim>\<open>alert\<close>s raised, the errors written by \<^verbatim>\<open>console.error\<close>, and the state at the end.
\<close>

record outcome =
  dispatched :: "request list"
  inflight :: "app_state option"
  alerts :: "string list"
  logged :: "error list"
  final :: app_state

definition handleAnalyze :: "app_state \<Rightarrow> env \<Rightarrow> outcome" where
  "handleAnalyze s e =
     (if selectedFile s = None \<and> trim (pastedText s) = [] then
        \<lparr>dispatched = [], inflight = None, alerts = [], logged = [], final = s\<rparr>
      else
        let s1 = s\<lparr>isAnalyzing := True\<rparr> in
        case try_block s1 e of
          (sent, Inr s2) \<Rightarrow>
            \<lparr>dispatched = sent, inflight = Some s1, alerts = [], logged = [],
             final = s2\<lparr>isAnalyzing := False\<rparr>\<rparr>
        | (sent, Inl x) \<Rightarrow>
            \<lparr>dispatched = sent, inflight = Some s1, alerts = [alert_message],
             logged = [x], final = s1\<lparr>isAnalyzing := False\<rparr>\<rparr>)"

subsection \<open>Clearing\<close>

text \<open>
  \<^verbatim>\<open>handleClear\<close>: six setters, then the audio element, when one is mounted, is paused
  and rewound.
\<close>

definition handleClear :: "app_state \<Rightarrow> app_state" where
  "handleClear s =
     s\<lparr>selectedFile := None, pastedText := lit '''', results := [], uploadProgress := 0,
       audioUrl := None, isPlaying := False,
       audioRef := (case audioRef s of
                      None \<Rightarrow> None
                    | Some a \<Rightarrow> Some (a\<lparr>paused := True, currentTime := 0\<rparr>))\<rparr>"

text \<open>The state of the first render: the arguments of the \<^verbatim>\<open>useState\<close> calls.\<close>

definition initial_state :: app_state where
  "initial_state =
     \<lparr>selectedFile = None, pastedText = lit '''', isAnalyzing = False, results = [],
      uploadProgress = 0, activeTab = ''upload'', isDragging = False, podcastMode = False,
      audioUrl = None, isPlaying = False, audioRef = None, uploadIntervals = 0,
      objectURLs = []\<rparr>"

subsection \<open>Payloads in the two families of field names\<close>

text \<open>
  A record of the payload built from an optional \<^verbatim>\<open>id\<close> and three values, once under
  the names \<^verbatim>\<open>text\<close>, \<^verbatim>\<open>risk_level\<close>, \<^verbatim>\<open>explanation\<close> and once under the names
  \<^verbatim>\<open>clause_text\<close>, \<^verbatim>\<open>severity\<close>, \<^verbatim>\<open>reason\<close>.
\<close>

fun primary_record :: "js_value option \<times> js_value \<times> js_value \<times> js_value \<Rightarrow> js_value" where
  "primary_record (i, t, r, x) =
     JObj ((case i of None \<Rightarrow> [] | Some v \<Rightarrow> [(lit ''id'', v)]) @
           [(lit ''text'', t), (lit ''risk_level'', r), (lit ''explanation'', x)])"

fun alternate_record :: "js_value option \<times> js_value \<times> js_value \<times> js_value \<Rightarrow> js_value" where
  "alternate_record (i, t, r, x) =
     JObj ((case i of None \<Rightarrow> [] | Some v \<Rightarrow> [(lit ''id'', v)]) @
           [(lit ''clause_text'', t), (lit ''severity'', r), (lit ''reason'', x)])"

section \<open>Auxiliary facts\<close>

lemma lit_eq_iff [simp]: "lit a = lit b \<longleftrightarrow> a = b"
  by (simp add: lit_def inj_map_eq_map [OF inj_of_char])

lemma lit_Nil [simp]: "lit [] = []"
  by (simp add: lit_def)

lemma lit_eq_Nil [simp]: "lit a = [] \<longleftrightarrow> a = []"
  by (simp add: lit_def)

lemma dropWhile_all: "(\<forall>c\<in>set (dropWhile P s). P c) \<longleftrightarrow> (\<forall>c\<in>set s. P c)"
  by (induction s) auto

lemma trim_empty_iff: "trim s = [] \<longleftrightarrow> (\<forall>c\<in>set s. isWhiteSpace c)"
  by (simp add: trim_def dropWhile_eq_Nil_conv dropWhile_all)

lemma request_of_isAnalyzing [simp]: "request_of (s\<lparr>isAnalyzing := b\<rparr>) = request_of s"
  by (simp add: request_of_def split: option.splits)

lemma try_block_sent: "fst (try_block s e) = [request_of s]"
  by (simp add: try_block_def await_fetch_def split: reply.splits)

lemma handleAnalyze_guard:
  "selectedFile s = None \<Longrightarrow> trim (pastedText s) = [] \<Longrightarrow>
   handleAnalyze s e = \<lparr>dispatched = [], inflight = None, alerts = [], logged = [], final = s\<rparr>"
  by (simp add: handleAnalyze_def)

lemma handleAnalyze_failure:
  assumes "selectedFile s \<noteq> None \<or> trim (pastedText s) \<noteq> []"
    and "snd (try_block (s\<lparr>isAnalyzing := True\<rparr>) e) = Inl x"
  shows "handleAnalyze s e =
     \<lparr>dispatched = [request_of s], inflight = Some (s\<lparr>isAnalyzing := True\<rparr>),
      alerts = [alert_message], logged = [x], final = s\<lparr>isAnalyzing := False\<rparr>\<rparr>"
proof -
  have "try_block (s\<lparr>isAnalyzing := True\<rparr>) e = ([request_of s], Inl x)"
    using assms(2) try_block_sent [of "s\<lparr>isAnalyzing := True\<rparr>" e]
    by (cases "try_block (s\<lparr>isAnalyzing := True\<rparr>) e") simp
  with assms(1) show ?thesis
    by (auto simp: handleAnalyze_def Let_def)
qed

lemma handleAnalyze_success:
  assumes "selectedFile s \<noteq> None \<or> trim (pastedText s) \<noteq> []"
    and "snd (try_block (s\<lparr>isAnalyzing := True\<rparr>) e) = Inr s2"
  shows "handleAnalyze s e =
     \<lparr>dispatched = [request_of s], inflight = Some (s\<lparr>isAnalyzing := True\<rparr>),
      alerts = [], logged = [], final = s2\<lparr>isAnalyzing := False\<rparr>\<rparr>"
proof -
  have "try_block (s\<lparr>isAnalyzing := True\<rparr>) e = ([request_of s], Inr s2)"
    using assms(2) try_block_sent [of "s\<lparr>isAnalyzing := True\<rparr>" e]
    by (cases "try_block (s\<lparr>isAnalyzing := True\<rparr>) e") simp
  with assms(1) show ?thesis
    by (auto simp: handleAnalyze_def Let_def)
qed

lemma handleAnalyze_dispatched:
  assumes "selectedFile s \<noteq> None \<or> trim (pastedText s) \<noteq> []"
  shows "dispatched (handleAnalyze s e) = [request_of s]"
proof (cases "snd (try_block (s\<lparr>isAnalyzing := True\<rparr>) e)")
  case (Inl x)
  show ?thesis by (simp add: handleAnalyze_failure [OF assms Inl])
next
  case (Inr s2)
  show ?thesis by (simp add: handleAnalyze_success [OF assms Inr])
qed

lemma handleAnalyze_inflight:
  assumes "selectedFile s \<noteq> None \<or> trim (pastedText s) \<noteq> []"
  shows "inflight (handleAnalyze s e) = Some (s\<lparr>isAnalyzing := True\<rparr>)"
proof (cases "snd (try_block (s\<lparr>isAnalyzing := True\<rparr>) e)")
  case (Inl x)
  show ?thesis by (simp add: handleAnalyze_failure [OF assms Inl])
next
  case (Inr s2)
  show ?thesis by (simp add: handleAnalyze_success [OF assms Inr])
qed

lemma try_block_rejected:
  "fetch e (request_of s) = Rejected \<Longrightarrow>
   snd (try_block (s\<lparr>isAnalyzing := b\<rparr>) e) = Inl NetworkError"
  by (simp add: try_block_def await_fetch_def)

lemma try_block_not_ok:
  "fetch e (request_of s) = Resolved r \<Longrightarrow> \<not> ok r \<Longrightarrow>
   snd (try_block (s\<lparr>isAnalyzing := b\<rparr>) e)
     = Inl (ApiError (lit ''API Error: '' @ statusText r))"
  by (simp add: try_block_def await_fetch_def)

lemma try_block_throws:
  assumes "fetch e (request_of s) = Rejected
     \<or> (\<exists>r. fetch e (request_of s) = Resolved r \<and>
           (\<not> ok r
            \<or> (podcastMode s \<and> blob r = None)
            \<or> (\<not> podcastMode s \<and> json r = None)
            \<or> (\<not> podcastMode s
                \<and> (\<exists>d. json r = Some d \<and> isl (transformedResults (hostToLowerCase e) d)))))"
  shows "\<exists>x. snd (try_block (s\<lparr>isAnalyzing := b\<rparr>) e) = Inl x"
  using assms
  by (auto simp: try_block_def await_fetch_def isl_def
      split: reply.splits option.splits sum.splits)

lemma try_block_standard_success:
  "\<not> podcastMode s \<Longrightarrow> fetch e (request_of s) = Resolved r \<Longrightarrow> ok r \<Longrightarrow> json r = Some d \<Longrightarrow>
   transformedResults (hostToLowerCase e) d = Inr cs \<Longrightarrow>
   snd (try_block (s\<lparr>isAnalyzing := c\<rparr>) e) =
     Inr (s\<lparr>isAnalyzing := c, results := cs, audioUrl := None\<rparr>)"
  by (simp add: try_block_def await_fetch_def)

lemma handleDrop_accepted:
  "file_type f = lit ''application/pdf''
   \<or> file_type f
       = lit ''application/vnd.openxmlformats-officedocument.wordprocessingml.document''
   \<or> file_type f = lit ''text/plain'' \<Longrightarrow>
   handleDrop s (f # rest) =
     s\<lparr>isDragging := False, selectedFile := Some f, uploadProgress := 0,
       uploadIntervals := Suc (uploadIntervals s)\<rparr>"
  by (simp add: handleDrop_def simulateUpload_def Let_def)

lemma handleDrop_ignored:
  "file_type f \<noteq> lit ''application/pdf'' \<Longrightarrow>
   file_type f
     \<noteq> lit ''application/vnd.openxmlformats-officedocument.wordprocessingml.document'' \<Longrightarrow>
   file_type f \<noteq> lit ''text/plain'' \<Longrightarrow>
   handleDrop s (f # rest) = s\<lparr>isDragging := False\<rparr>"
  by (simp add: handleDrop_def Let_def)

lemma mapClauses_nth:
  "mapClauses U recs n = Inr cs \<Longrightarrow>
   length cs = length recs
   \<and> (\<forall>i<length recs. transformClause U (recs ! i) (n + i) = Inr (cs ! i))"
proof (induction recs arbitrary: n cs)
  case Nil
  then show ?case by simp
next
  case (Cons c recs)
  from Cons.prems obtain x xs where
    x: "transformClause U c n = Inr x" and xs: "mapClauses U recs (Suc n) = Inr xs"
    and cs: "cs = x # xs"
    by (auto split: sum.splits)
  from Cons.IH [OF xs] have len: "length xs = length recs"
    and nth: "\<And>i. i < length recs \<Longrightarrow>
                transformClause U (recs ! i) (Suc (n + i)) = Inr (xs ! i)"
    by simp_all
  show ?case
  proof (intro conjI allI impI)
    show "length cs = length (c # recs)" by (simp add: cs len)
  next
    fix i assume "i < length (c # recs)"
    then show "transformClause U ((c # recs) ! i) (n + i) = Inr (cs ! i)"
      by (cases i) (simp_all add: cs x nth)
  qed
qed

lemma transformedResults_nth:
  assumes "transformedResults U data = Inr cs" and "member data (lit ''clauses'') = JArr recs"
  shows "length cs = length recs"
    and "i < length recs \<Longrightarrow> transformClause U (recs ! i) i = Inr (cs ! i)"
  using assms mapClauses_nth [of U recs 0 cs]
  by (auto simp: transformedResults_def split: if_splits)

lemma transformClause_level:
  "transformClause U c n = Inr x \<Longrightarrow>
   call_toLowerCase U
     (or_else (or_else (member c (lit ''risk_level'')) (member c (lit ''severity'')))
        (JStr (lit ''medium'')))
     = Inr (riskLevel x)"
  by (auto simp: transformClause_def split: if_splits sum.splits)


lemma or_else_undefined_left: "or_else JUndefined b = b"
  by (simp add: or_else_def)

lemma or_else_undefined_right: "or_else (or_else a JUndefined) d = or_else a d"
  by (simp add: or_else_def)

lemma member_primary_record:
  "member (primary_record (i, t, r, x)) (lit ''id'')
     = (case i of None \<Rightarrow> JUndefined | Some v \<Rightarrow> v)"
  "member (primary_record (i, t, r, x)) (lit ''text'') = t"
  "member (primary_record (i, t, r, x)) (lit ''clause_text'') = JUndefined"
  "member (primary_record (i, t, r, x)) (lit ''risk_level'') = r"
  "member (primary_record (i, t, r, x)) (lit ''severity'') = JUndefined"
  "member (primary_record (i, t, r, x)) (lit ''explanation'') = x"
  "member (primary_record (i, t, r, x)) (lit ''reason'') = JUndefined"
  by (simp_all split: option.splits)

lemma member_alternate_record:
  "member (alternate_record (i, t, r, x)) (lit ''id'')
     = (case i of None \<Rightarrow> JUndefined | Some v \<Rightarrow> v)"
  "member (alternate_record (i, t, r, x)) (lit ''text'') = JUndefined"
  "member (alternate_record (i, t, r, x)) (lit ''clause_text'') = t"
  "member (alternate_record (i, t, r, x)) (lit ''risk_level'') = JUndefined"
  "member (alternate_record (i, t, r, x)) (lit ''severity'') = r"
  "member (alternate_record (i, t, r, x)) (lit ''explanation'') = JUndefined"
  "member (alternate_record (i, t, r, x)) (lit ''reason'') = x"
  by (simp_all split: option.splits)

lemma transformClause_alternate:
  "transformClause U (alternate_record q) n = transformClause U (primary_record q) n"
proof -
  obtain i t r x where q: "q = (i, t, r, x)"
    by (cases q)
  show ?thesis
    unfolding q transformClause_def member_primary_record member_alternate_record
    by (simp add: nullish_def or_else_undefined_left or_else_undefined_right
        split: sum.splits)
qed

lemma mapClauses_alternate:
  "mapClauses U (map alternate_record qs) n = mapClauses U (map primary_record qs) n"
proof (induction qs arbitrary: n)
  case Nil
  show ?case by simp
next
  case (Cons q qs)
  have "mapClauses U (map alternate_record qs) (n + 1)
      = mapClauses U (map primary_record qs) (n + 1)"
    by (rule Cons.IH)
  then show ?case
    by (simp add: transformClause_alternate split: sum.splits)
qed

lemma transformedResults_alternate:
  "transformedResults U (JObj [(lit ''clauses'', JArr (map alternate_record qs))])
     = transformedResults U (JObj [(lit ''clauses'', JArr (map primary_record qs))])"
  by (simp add: transformedResults_def nullish_def mapClauses_alternate)

lemma try_block_json_cong:
  assumes "transformedResults (hostToLowerCase e) d = transformedResults (hostToLowerCase e) d'"
  shows "try_block s (e\<lparr>fetch := always (Resolved (r\<lparr>json := Some d\<rparr>))\<rparr>)
       = try_block s (e\<lparr>fetch := always (Resolved (r\<lparr>json := Some d'\<rparr>))\<rparr>)"
  using assms by (simp add: try_block_def await_fetch_def always_def split: option.splits)

lemma handleAnalyze_json_cong:
  assumes "transformedResults (hostToLowerCase e) d = transformedResults (hostToLowerCase e) d'"
  shows "handleAnalyze s (e\<lparr>fetch := always (Resolved (r\<lparr>json := Some d\<rparr>))\<rparr>)
       = handleAnalyze s (e\<lparr>fetch := always (Resolved (r\<lparr>json := Some d'\<rparr>))\<rparr>)"
  by (simp add: handleAnalyze_def Let_def try_block_json_cong [OF assms])




section \<open>Properties\<close>

subsection \<open>Submission without input\<close>

text \<open>
  C3. When no file is selected and the pasted text is empty or consists only of code units
  that \<^verbatim>\<open>trim\<close> strips, \<^verbatim>\<open>handleAnalyze\<close> returns at its guard: nothing is handed to
  \<^verbatim>\<open>fetch\<close>, no alert is raised, nothing is logged, and the state at the end is the state
  at the start, in every field.
\<close>

theorem submit_without_input_is_noop:
  assumes "selectedFile s = None" and "\<forall>c\<in>set (pastedText s). isWhiteSpace c"
  shows "handleAnalyze s e =
           \<lparr>dispatched = [], inflight = None, alerts = [], logged = [], final = s\<rparr>"
  using assms by (simp add: handleAnalyze_guard trim_empty_iff)

theorem submit_without_input_is_noop_witness:
  "handleAnalyze (initial_state\<lparr>pastedText := [0x20, 0x09, 0x0A, 0xA0, 0x3000, 0xFEFF]\<rparr>)
     \<lparr>fetch = always (Resolved \<lparr>ok = True, statusText = lit ''OK'', blob = Some ''RIFF'',
                                 json = Some (JObj [])\<rparr>),
      createObjectURL = always (lit ''blob:1''), hostToLowerCase = map lowerLatin1\<rparr>
   = \<lparr>dispatched = [], inflight = None, alerts = [], logged = [],
      final = initial_state\<lparr>pastedText := [0x20, 0x09, 0x0A, 0xA0, 0x3000, 0xFEFF]\<rparr>\<rparr>"
  using submit_without_input_is_noop
    [of "initial_state\<lparr>pastedText := [0x20, 0x09, 0x0A, 0xA0, 0x3000, 0xFEFF]\<rparr>"
        "\<lparr>fetch = always (Resolved \<lparr>ok = True, statusText = lit ''OK'', blob = Some ''RIFF'',
                                 json = Some (JObj [])\<rparr>),
      createObjectURL = always (lit ''blob:1''), hostToLowerCase = map lowerLatin1\<rparr>"]
  by (simp add: initial_state_def isWhiteSpace_def)

subsection \<open>Choice of the endpoint\<close>

text \<open>
  C1. A submission with a file or with text that \<^verbatim>\<open>trim\<close> does not empty hands exactly one
  request to \<^verbatim>\<open>fetch\<close>. With a file selected it is the multipart request carrying the
  file, sent to \<^verbatim>\<open>/conversation_clauses_file\<close> in podcast mode and to \<^verbatim>\<open>/get_clauses\<close>
  otherwise, whatever the pasted text is; with no file it is the JSON request carrying
  the pasted text, sent to \<^verbatim>\<open>/conversation_clauses\<close> in podcast mode and to
  \<^verbatim>\<open>/get_clauses\<close> otherwise. It is the reply of the network to this request that the
  handler goes on with: when the network rejects this request the error logged is the
  network error, and when it answers this request with a response that is not \<^verbatim>\<open>ok\<close> the
  error logged carries the status text of that response.
\<close>

theorem submission_dispatches_table_request:
  assumes "selectedFile s \<noteq> None \<or> trim (pastedText s) \<noteq> []"
  shows "let req =
          (case selectedFile s of
             Some f \<Rightarrow>
               \<lparr>url = ''http://localhost:8000'' @
                       (if podcastMode s then ''/conversation_clauses_file''
                        else ''/get_clauses''),
                http_method = ''POST'', headers = [], body = FormData [(''file'', f)]\<rparr>
           | None \<Rightarrow>
               \<lparr>url = ''http://localhost:8000'' @
                       (if podcastMode s then ''/conversation_clauses'' else ''/get_clauses''),
                http_method = ''POST'', headers = [(''Content-Type'', ''application/json'')],
                body = JSON_stringify (JObj [(lit ''text'', JStr (pastedText s))])\<rparr>)
     in dispatched (handleAnalyze s e) = [req]
        \<and> (fetch e req = Rejected \<longrightarrow> logged (handleAnalyze s e) = [NetworkError])
        \<and> (\<forall>r. fetch e req = Resolved r \<and> \<not> ok r \<longrightarrow>
              logged (handleAnalyze s e) = [ApiError (lit ''API Error: '' @ statusText r)])"
proof -
  have req: "request_of s =
          (case selectedFile s of
             Some f \<Rightarrow>
               \<lparr>url = ''http://localhost:8000'' @
                       (if podcastMode s then ''/conversation_clauses_file''
                        else ''/get_clauses''),
                http_method = ''POST'', headers = [], body = FormData [(''file'', f)]\<rparr>
           | None \<Rightarrow>
               \<lparr>url = ''http://localhost:8000'' @
                       (if podcastMode s then ''/conversation_clauses'' else ''/get_clauses''),
                http_method = ''POST'', headers = [(''Content-Type'', ''application/json'')],
                body = JSON_stringify (JObj [(lit ''text'', JStr (pastedText s))])\<rparr>)"
    by (simp add: request_of_def file_request_def text_request_def API_BASE_URL_def
        split: option.splits)
  have d: "dispatched (handleAnalyze s e) = [request_of s]"
    using assms by (rule handleAnalyze_dispatched)
  have n: "logged (handleAnalyze s e) = [NetworkError]" if "fetch e (request_of s) = Rejected"
    using handleAnalyze_failure [OF assms try_block_rejected [OF that]] by simp
  have a: "logged (handleAnalyze s e) = [ApiError (lit ''API Error: '' @ statusText r)]"
    if "fetch e (request_of s) = Resolved r" and "\<not> ok r" for r
    using handleAnalyze_failure [OF assms try_block_not_ok [OF that]] by simp
  show ?thesis
    unfolding Let_def req [symmetric] using d n a by blast
qed

theorem submission_dispatches_table_request_witness:
  "dispatched (handleAnalyze
      (initial_state\<lparr>selectedFile := Some \<lparr>file_name = lit ''tos.pdf'', file_size = 2048,
                                           file_type = lit ''application/pdf''\<rparr>,
                     pastedText := lit ''terms'', podcastMode := True\<rparr>)
      \<lparr>fetch = only_serves ''http://localhost:8000/conversation_clauses_file''
                 (Resolved \<lparr>ok = False, statusText = lit ''Teapot'', blob = None,
                            json = None\<rparr>),
       createObjectURL = always (lit ''blob:1''), hostToLowerCase = map lowerLatin1\<rparr>)
   = [\<lparr>url = ''http://localhost:8000/conversation_clauses_file'', http_method = ''POST'',
       headers = [],
       body = FormData [(''file'', \<lparr>file_name = lit ''tos.pdf'', file_size = 2048,
                                    file_type = lit ''application/pdf''\<rparr>)]\<rparr>]
   \<and> logged (handleAnalyze
      (initial_state\<lparr>selectedFile := Some \<lparr>file_name = lit ''tos.pdf'', file_size = 2048,
                                           file_type = lit ''application/pdf''\<rparr>,
                     pastedText := lit ''terms'', podcastMode := True\<rparr>)
      \<lparr>fetch = only_serves ''http://localhost:8000/conversation_clauses_file''
                 (Resolved \<lparr>ok = False, statusText = lit ''Teapot'', blob = None,
                            json = None\<rparr>),
       createObjectURL = always (lit ''blob:1''), hostToLowerCase = map lowerLatin1\<rparr>)
   = [ApiError (lit ''API Error: Teapot'')]
   \<and> dispatched (handleAnalyze (initial_state\<lparr>pastedText := lit ''terms''\<rparr>)
      \<lparr>fetch = only_serves ''http://localhost:8000/conversation_clauses''
                 (Resolved \<lparr>ok = False, statusText = lit ''Teapot'', blob = None,
                            json = None\<rparr>),
       createObjectURL = always (lit ''blob:1''), hostToLowerCase = map lowerLatin1\<rparr>)
   = [\<lparr>url = ''http://localhost:8000/get_clauses'', http_method = ''POST'',
       headers = [(''Content-Type'', ''application/json'')],
       body = JSON_stringify (JObj [(lit ''text'', JStr (lit ''terms''))])\<rparr>]
   \<and> logged (handleAnalyze (initial_state\<lparr>pastedText := lit ''terms''\<rparr>)
      \<lparr>fetch = only_serves ''http://localhost:8000/conversation_clauses''
                 (Resolved \<lparr>ok = False, statusText = lit ''Teapot'', blob = None,
                            json = None\<rparr>),
       createObjectURL = always (lit ''blob:1''), hostToLowerCase = map lowerLatin1\<rparr>)
   = [NetworkError]"
  using submission_dispatches_table_request
    [of "initial_state\<lparr>selectedFile := Some \<lparr>file_name = lit ''tos.pdf'', file_size = 2048,
                                           file_type = lit ''application/pdf''\<rparr>,
                     pastedText := lit ''terms'', podcastMode := True\<rparr>"
        "\<lparr>fetch = only_serves ''http://localhost:8000/conversation_clauses_file''
                 (Resolved \<lparr>ok = False, statusText = lit ''Teapot'', blob = None,
                            json = None\<rparr>),
       createObjectURL = always (lit ''blob:1''), hostToLowerCase = map lowerLatin1\<rparr>"]
    submission_dispatches_table_request
    [of "initial_state\<lparr>pastedText := lit ''terms''\<rparr>"
        "\<lparr>fetch = only_serves ''http://localhost:8000/conversation_clauses''
                 (Resolved \<lparr>ok = False, statusText = lit ''Teapot'', blob = None,
                            json = None\<rparr>),
       createObjectURL = always (lit ''blob:1''), hostToLowerCase = map lowerLatin1\<rparr>"]
  by (simp add: initial_state_def trim_def isWhiteSpace_def lit_def only_serves_def Let_def)

subsection \<open>Selecting a file\<close>

text \<open>
  C9. The first file of a drop becomes the selected file exactly when its declared type
  is \<^verbatim>\<open>application/pdf\<close>, the DOCX type or \<^verbatim>\<open>text/plain\<close>, and this for every size
  \<open>n\<close> of the file; then the simulated upload starts as well. A first file of any other
  declared type changes nothing but the dragging flag: the selected file stays as it was.
  Submission does not look at the size either: a selected file of any size is the file of
  the request that is sent.
\<close>

theorem drop_accepts_three_types_any_size:
  "(file_type f \<in> {lit ''application/pdf'',
       lit ''application/vnd.openxmlformats-officedocument.wordprocessingml.document'',
       lit ''text/plain''} \<longrightarrow>
      handleDrop s (f\<lparr>file_size := n\<rparr> # rest) =
        s\<lparr>isDragging := False, selectedFile := Some (f\<lparr>file_size := n\<rparr>),
          uploadProgress := 0, uploadIntervals := Suc (uploadIntervals s)\<rparr>)
   \<and> (file_type f \<notin> {lit ''application/pdf'',
       lit ''application/vnd.openxmlformats-officedocument.wordprocessingml.document'',
       lit ''text/plain''} \<longrightarrow>
      handleDrop s (f # rest) = s\<lparr>isDragging := False\<rparr>)
   \<and> (selectedFile s = Some (f\<lparr>file_size := n\<rparr>) \<longrightarrow>
      map body (dispatched (handleAnalyze s e)) = [FormData [(''file'', f\<lparr>file_size := n\<rparr>)]])"
proof (intro conjI impI)
  assume "file_type f \<in> {lit ''application/pdf'',
       lit ''application/vnd.openxmlformats-officedocument.wordprocessingml.document'',
       lit ''text/plain''}"
  then show "handleDrop s (f\<lparr>file_size := n\<rparr> # rest) =
        s\<lparr>isDragging := False, selectedFile := Some (f\<lparr>file_size := n\<rparr>),
          uploadProgress := 0, uploadIntervals := Suc (uploadIntervals s)\<rparr>"
    by (intro handleDrop_accepted) auto
next
  assume "file_type f \<notin> {lit ''application/pdf'',
       lit ''application/vnd.openxmlformats-officedocument.wordprocessingml.document'',
       lit ''text/plain''}"
  then show "handleDrop s (f # rest) = s\<lparr>isDragging := False\<rparr>"
    by (intro handleDrop_ignored) auto
next
  assume "selectedFile s = Some (f\<lparr>file_size := n\<rparr>)"
  then show "map body (dispatched (handleAnalyze s e)) = [FormData [(''file'', f\<lparr>file_size := n\<rparr>)]]"
    by (simp add: handleAnalyze_dispatched request_of_def file_request_def)
qed

theorem drop_accepts_three_types_any_size_witness:
  "handleDrop initial_state
     [\<lparr>file_name = lit ''tos.pdf'', file_size = 52428800, file_type = lit ''application/pdf''\<rparr>]
   = initial_state
       \<lparr>selectedFile := Some \<lparr>file_name = lit ''tos.pdf'', file_size = 52428800,
                              file_type = lit ''application/pdf''\<rparr>,
        uploadIntervals := 1\<rparr>
   \<and> handleDrop
       (initial_state\<lparr>isDragging := True,
          selectedFile := Some \<lparr>file_name = lit ''old.txt'', file_size = 10,
                                 file_type = lit ''text/plain''\<rparr>\<rparr>)
       [\<lparr>file_name = lit ''photo.png'', file_size = 4096, file_type = lit ''image/png''\<rparr>]
     = initial_state\<lparr>selectedFile := Some \<lparr>file_name = lit ''old.txt'', file_size = 10,
                                              file_type = lit ''text/plain''\<rparr>\<rparr>
   \<and> map body (dispatched (handleAnalyze
       (initial_state\<lparr>selectedFile := Some \<lparr>file_name = lit ''tos.pdf'', file_size = 52428800,
                                              file_type = lit ''application/pdf''\<rparr>\<rparr>)
       \<lparr>fetch = always Rejected, createObjectURL = always (lit ''blob:1''), hostToLowerCase = map lowerLatin1\<rparr>))
     = [FormData [(''file'', \<lparr>file_name = lit ''tos.pdf'', file_size = 52428800,
                                 file_type = lit ''application/pdf''\<rparr>)]]"
  using drop_accepts_three_types_any_size
    [where f = "\<lparr>file_name = lit ''tos.pdf'', file_size = 0, file_type = lit ''application/pdf''\<rparr>"
       and s = initial_state and n = 52428800 and rest = "[]"]
    drop_accepts_three_types_any_size
    [where f = "\<lparr>file_name = lit ''photo.png'', file_size = 4096, file_type = lit ''image/png''\<rparr>"
       and s = "initial_state\<lparr>isDragging := True,
          selectedFile := Some \<lparr>file_name = lit ''old.txt'', file_size = 10,
                                 file_type = lit ''text/plain''\<rparr>\<rparr>"
       and rest = "[]"]
    drop_accepts_three_types_any_size
    [where f = "\<lparr>file_name = lit ''tos.pdf'', file_size = 0, file_type = lit ''application/pdf''\<rparr>"
       and s = "initial_state\<lparr>selectedFile := Some \<lparr>file_name = lit ''tos.pdf'',
                  file_size = 52428800, file_type = lit ''application/pdf''\<rparr>\<rparr>"
       and n = 52428800
       and e = "\<lparr>fetch = always Rejected, createObjectURL = always (lit ''blob:1''), hostToLowerCase = map lowerLatin1\<rparr>"]
  by (simp add: initial_state_def lit_def)

text \<open>
  C10. \<^verbatim>\<open>handleFileChange\<close> selects the first file of the change event and starts the
  simulated upload, whatever the file's declared type and size are. A file whose type the
  drop handler rejects is selected all the same when it arrives through the change event.
\<close>

theorem file_change_selects_any_file:
  "handleFileChange s (Some (f # rest)) =
     s\<lparr>selectedFile := Some f, uploadProgress := 0,
       uploadIntervals := Suc (uploadIntervals s)\<rparr>
   \<and> (file_type f \<notin> {lit ''application/pdf'',
          lit ''application/vnd.openxmlformats-officedocument.wordprocessingml.document'',
          lit ''text/plain''} \<longrightarrow>
        selectedFile (handleDrop s (f # rest)) = selectedFile s)"
  by (simp add: handleFileChange_def simulateUpload_def handleDrop_ignored)

theorem file_change_selects_any_file_witness:
  "handleFileChange initial_state
     (Some [\<lparr>file_name = lit ''photo.png'', file_size = 52428800, file_type = lit ''image/png''\<rparr>])
   = initial_state
       \<lparr>selectedFile := Some \<lparr>file_name = lit ''photo.png'', file_size = 52428800,
                              file_type = lit ''image/png''\<rparr>,
        uploadProgress := 0, uploadIntervals := 1\<rparr>
   \<and> selectedFile (handleDrop initial_state
        [\<lparr>file_name = lit ''photo.png'', file_size = 52428800, file_type = lit ''image/png''\<rparr>])
     = None"
  using file_change_selects_any_file
    [of initial_state
        "\<lparr>file_name = lit ''photo.png'', file_size = 52428800, file_type = lit ''image/png''\<rparr>" "[]"]
  by (simp add: initial_state_def lit_def)

subsection \<open>Clearing\<close>

text \<open>
  C8, as stated, fails: \<^verbatim>\<open>handleClear\<close> has no \<^verbatim>\<open>setIsAnalyzing\<close> and no
  \<^verbatim>\<open>URL.revokeObjectURL\<close>. Cleared while a request is in flight, the component is still
  in flight afterwards, and the object URL of the audio is still registered.
\<close>

theorem clear_keeps_submission_status_counterexample:
  "isAnalyzing (handleClear (initial_state\<lparr>pastedText := lit ''terms'', isAnalyzing := True,
       audioUrl := Some (lit ''blob:1''), objectURLs := [lit ''blob:1'']\<rparr>)) = True
   \<and> objectURLs (handleClear (initial_state\<lparr>pastedText := lit ''terms'', isAnalyzing := True,
       audioUrl := Some (lit ''blob:1''), objectURLs := [lit ''blob:1'']\<rparr>)) = [lit ''blob:1'']"
  by (simp add: handleClear_def initial_state_def)

text \<open>
  C8, amended. \<^verbatim>\<open>handleClear\<close> resets the selected file, the pasted text, the results,
  the upload progress, the audio URL and the playing flag, and it pauses and rewinds the
  audio element when one is mounted. It leaves the podcast flag and \<^verbatim>\<open>isAnalyzing\<close> as
  they are, and it revokes no object URL.
\<close>

theorem clear_resets_inputs_and_results:
  "handleClear s =
     s\<lparr>selectedFile := None, pastedText := lit '''', results := [], uploadProgress := 0,
       audioUrl := None, isPlaying := False,
       audioRef := map_option (\<lambda>a. a\<lparr>paused := True, currentTime := 0\<rparr>) (audioRef s)\<rparr>
   \<and> podcastMode (handleClear s) = podcastMode s
   \<and> isAnalyzing (handleClear s) = isAnalyzing s
   \<and> objectURLs (handleClear s) = objectURLs s"
  by (simp add: handleClear_def split: option.splits)

theorem clear_resets_inputs_and_results_witness:
  "handleClear
     (initial_state\<lparr>selectedFile := Some \<lparr>file_name = lit ''tos.pdf'', file_size = 2048,
                                          file_type = lit ''application/pdf''\<rparr>,
        pastedText := lit ''terms'', uploadProgress := 100, podcastMode := True,
        audioUrl := Some (lit ''blob:1''), isPlaying := True,
        audioRef := Some \<lparr>paused = False, currentTime = 7 / 2\<rparr>,
        objectURLs := [lit ''blob:1'']\<rparr>)
   = initial_state\<lparr>podcastMode := True,
       audioRef := Some \<lparr>paused = True, currentTime = 0\<rparr>, objectURLs := [lit ''blob:1'']\<rparr>"
  using clear_resets_inputs_and_results
    [of "initial_state\<lparr>selectedFile := Some \<lparr>file_name = lit ''tos.pdf'', file_size = 2048,
                                          file_type = lit ''application/pdf''\<rparr>,
        pastedText := lit ''terms'', uploadProgress := 100, podcastMode := True,
        audioUrl := Some (lit ''blob:1''), isPlaying := True,
        audioRef := Some \<lparr>paused = False, currentTime = 7 / 2\<rparr>,
        objectURLs := [lit ''blob:1'']\<rparr>"]
  by (simp add: initial_state_def lit_def)

subsection \<open>Failure of a submission\<close>

text \<open>
  C4. A submission fails when \<^verbatim>\<open>fetch\<close> rejects, when the response is not \<^verbatim>\<open>ok\<close>, when
  the body cannot be read (as a blob in podcast mode, as JSON otherwise), or when the
  parsed payload makes the transformation throw. After every such submission the state is
  the state at the start with \<^verbatim>\<open>isAnalyzing\<close> false: the results and the audio URL are
  what they were, and exactly one alert, with the fixed message, has been raised.
\<close>

theorem failed_submission_returns_to_idle:
  assumes "selectedFile s \<noteq> None \<or> trim (pastedText s) \<noteq> []"
    and "fetch e (request_of s) = Rejected
     \<or> (\<exists>r. fetch e (request_of s) = Resolved r \<and>
           (\<not> ok r
            \<or> (podcastMode s \<and> blob r = None)
            \<or> (\<not> podcastMode s \<and> json r = None)
            \<or> (\<not> podcastMode s
                \<and> (\<exists>d. json r = Some d \<and> isl (transformedResults (hostToLowerCase e) d)))))"
  shows "final (handleAnalyze s e) = s\<lparr>isAnalyzing := False\<rparr>
     \<and> \<not> isAnalyzing (final (handleAnalyze s e))
     \<and> results (final (handleAnalyze s e)) = results s
     \<and> audioUrl (final (handleAnalyze s e)) = audioUrl s
     \<and> alerts (handleAnalyze s e) = [alert_message]"
proof -
  from assms(2) obtain x where "snd (try_block (s\<lparr>isAnalyzing := True\<rparr>) e) = Inl x"
    using try_block_throws by blast
  with assms(1) show ?thesis
    by (simp add: handleAnalyze_failure)
qed

theorem failed_submission_returns_to_idle_witness:
  "final (handleAnalyze
       (initial_state\<lparr>pastedText := lit ''terms'', podcastMode := True,
          results := [\<lparr>id' = JStr (lit ''1''), text' = JStr (lit ''old''), riskLevel = lit ''low'',
                       explanation = JStr (lit ''kept'')\<rparr>]\<rparr>)
       \<lparr>fetch = always Rejected, createObjectURL = always (lit ''blob:1''), hostToLowerCase = map lowerLatin1\<rparr>)
     = initial_state\<lparr>pastedText := lit ''terms'', podcastMode := True,
          results := [\<lparr>id' = JStr (lit ''1''), text' = JStr (lit ''old''), riskLevel = lit ''low'',
                       explanation = JStr (lit ''kept'')\<rparr>]\<rparr>
   \<and> alerts (handleAnalyze
       (initial_state\<lparr>pastedText := lit ''terms'', podcastMode := True,
          results := [\<lparr>id' = JStr (lit ''1''), text' = JStr (lit ''old''), riskLevel = lit ''low'',
                       explanation = JStr (lit ''kept'')\<rparr>]\<rparr>)
       \<lparr>fetch = always Rejected, createObjectURL = always (lit ''blob:1''), hostToLowerCase = map lowerLatin1\<rparr>)
     = [alert_message]
   \<and> final (handleAnalyze
       (initial_state\<lparr>pastedText := lit ''terms'', audioUrl := Some (lit ''blob:0'')\<rparr>)
       \<lparr>fetch = always (Resolved \<lparr>ok = False, statusText = lit ''Internal Server Error'',
                                   blob = None, json = None\<rparr>),
        createObjectURL = always (lit ''blob:1''), hostToLowerCase = map lowerLatin1\<rparr>)
     = initial_state\<lparr>pastedText := lit ''terms'', audioUrl := Some (lit ''blob:0'')\<rparr>
   \<and> alerts (handleAnalyze
       (initial_state\<lparr>pastedText := lit ''terms'', audioUrl := Some (lit ''blob:0'')\<rparr>)
       \<lparr>fetch = always (Resolved \<lparr>ok = False, statusText = lit ''Internal Server Error'',
                                   blob = None, json = None\<rparr>),
        createObjectURL = always (lit ''blob:1''), hostToLowerCase = map lowerLatin1\<rparr>)
     = [alert_message]
   \<and> final (handleAnalyze
       (initial_state\<lparr>pastedText := lit ''terms''\<rparr>)
       \<lparr>fetch = always (Resolved \<lparr>ok = True, statusText = lit ''OK'', blob = Some ''{'',
                                   json = None\<rparr>),
        createObjectURL = always (lit ''blob:1''), hostToLowerCase = map lowerLatin1\<rparr>)
     = initial_state\<lparr>pastedText := lit ''terms''\<rparr>
   \<and> alerts (handleAnalyze
       (initial_state\<lparr>pastedText := lit ''terms''\<rparr>)
       \<lparr>fetch = always (Resolved \<lparr>ok = True, statusText = lit ''OK'', blob = Some ''{'',
                                   json = None\<rparr>),
        createObjectURL = always (lit ''blob:1''), hostToLowerCase = map lowerLatin1\<rparr>)
     = [alert_message]"
  using failed_submission_returns_to_idle
    [of "initial_state\<lparr>pastedText := lit ''terms'', podcastMode := True,
          results := [\<lparr>id' = JStr (lit ''1''), text' = JStr (lit ''old''), riskLevel = lit ''low'',
                       explanation = JStr (lit ''kept'')\<rparr>]\<rparr>"
        "\<lparr>fetch = always Rejected, createObjectURL = always (lit ''blob:1''), hostToLowerCase = map lowerLatin1\<rparr>"]
    failed_submission_returns_to_idle
    [of "initial_state\<lparr>pastedText := lit ''terms'', audioUrl := Some (lit ''blob:0'')\<rparr>"
        "\<lparr>fetch = always (Resolved \<lparr>ok = False, statusText = lit ''Internal Server Error'',
                                   blob = None, json = None\<rparr>),
        createObjectURL = always (lit ''blob:1''), hostToLowerCase = map lowerLatin1\<rparr>"]
    failed_submission_returns_to_idle
    [of "initial_state\<lparr>pastedText := lit ''terms''\<rparr>"
        "\<lparr>fetch = always (Resolved \<lparr>ok = True, statusText = lit ''OK'', blob = Some ''{'',
                                   json = None\<rparr>),
        createObjectURL = always (lit ''blob:1''), hostToLowerCase = map lowerLatin1\<rparr>"]
  by (simp add: initial_state_def trim_def isWhiteSpace_def lit_def always_def)

subsection \<open>The other kind of result\<close>

text \<open>
  C2, as stated, fails: the setters that clear the other kind of result stand after the
  response has been checked and read. A podcast submission whose \<^verbatim>\<open>fetch\<close> rejects
  leaves the results in place, and an analysis that is answered with status 500 leaves the
  audio URL in place.
\<close>

theorem failed_submission_keeps_alternate_result_counterexample:
  "results (final (handleAnalyze
       (initial_state\<lparr>pastedText := lit ''terms'', podcastMode := True,
          results := [\<lparr>id' = JStr (lit ''1''), text' = JStr (lit ''old''), riskLevel = lit ''low'',
                       explanation = JStr (lit ''kept'')\<rparr>]\<rparr>)
       \<lparr>fetch = always Rejected, createObjectURL = always (lit ''blob:1''), hostToLowerCase = map lowerLatin1\<rparr>))
     = [\<lparr>id' = JStr (lit ''1''), text' = JStr (lit ''old''), riskLevel = lit ''low'',
         explanation = JStr (lit ''kept'')\<rparr>]
   \<and> audioUrl (final (handleAnalyze
       (initial_state\<lparr>pastedText := lit ''terms'', audioUrl := Some (lit ''blob:0'')\<rparr>)
       \<lparr>fetch = always (Resolved \<lparr>ok = False, statusText = lit ''Internal Server Error'',
                                   blob = None, json = None\<rparr>),
        createObjectURL = always (lit ''blob:1''), hostToLowerCase = map lowerLatin1\<rparr>))
     = Some (lit ''blob:0'')"
  by (simp add: handleAnalyze_def try_block_def await_fetch_def initial_state_def trim_def
      isWhiteSpace_def lit_def always_def Let_def)

text \<open>
  C2, amended. While the request is in flight, only \<^verbatim>\<open>isAnalyzing\<close> has changed. A
  podcast submission ends with empty results exactly when the response is \<^verbatim>\<open>ok\<close> and its
  body is read, and with the results it started with otherwise; a standard submission
  ends with no audio URL exactly when the response is \<^verbatim>\<open>ok\<close>, its body parses and the
  transformation returns, and with the audio URL it started with otherwise.
\<close>

theorem alternate_result_cleared_on_success_only:
  assumes "selectedFile s \<noteq> None \<or> trim (pastedText s) \<noteq> []"
  shows "inflight (handleAnalyze s e) = Some (s\<lparr>isAnalyzing := True\<rparr>)
     \<and> (podcastMode s \<longrightarrow>
          results (final (handleAnalyze s e)) =
            (case fetch e (request_of s) of
               Rejected \<Rightarrow> results s
             | Resolved r \<Rightarrow> if ok r \<and> blob r \<noteq> None then [] else results s))
     \<and> (\<not> podcastMode s \<longrightarrow>
          audioUrl (final (handleAnalyze s e)) =
            (case fetch e (request_of s) of
               Rejected \<Rightarrow> audioUrl s
             | Resolved r \<Rightarrow>
                 if ok r
                    \<and> (\<exists>d. json r = Some d
                           \<and> \<not> isl (transformedResults (hostToLowerCase e) d))
                 then None
                 else audioUrl s))"
proof (intro conjI impI)
  show "inflight (handleAnalyze s e) = Some (s\<lparr>isAnalyzing := True\<rparr>)"
    using assms by (rule handleAnalyze_inflight)
next
  assume "podcastMode s"
  with assms show "results (final (handleAnalyze s e)) =
            (case fetch e (request_of s) of
               Rejected \<Rightarrow> results s
             | Resolved r \<Rightarrow> if ok r \<and> blob r \<noteq> None then [] else results s)"
    by (auto simp: handleAnalyze_def try_block_def await_fetch_def Let_def
        split: reply.splits option.splits)
next
  assume "\<not> podcastMode s"
  with assms show "audioUrl (final (handleAnalyze s e)) =
            (case fetch e (request_of s) of
               Rejected \<Rightarrow> audioUrl s
             | Resolved r \<Rightarrow>
                 if ok r
                    \<and> (\<exists>d. json r = Some d
                           \<and> \<not> isl (transformedResults (hostToLowerCase e) d))
                 then None
                 else audioUrl s)"
    by (auto simp: handleAnalyze_def try_block_def await_fetch_def Let_def isl_def
        split: reply.splits option.splits sum.splits)
qed

theorem alternate_result_cleared_on_success_only_witness:
  "results (final (handleAnalyze
       (initial_state\<lparr>pastedText := lit ''terms'', podcastMode := True,
          results := [\<lparr>id' = JStr (lit ''1''), text' = JStr (lit ''old''), riskLevel = lit ''low'',
                       explanation = JStr (lit ''kept'')\<rparr>]\<rparr>)
       \<lparr>fetch = always (Resolved \<lparr>ok = True, statusText = lit ''OK'', blob = Some ''RIFF'',
                                   json = None\<rparr>),
        createObjectURL = always (lit ''blob:1''), hostToLowerCase = map lowerLatin1\<rparr>))
     = []
   \<and> map_option results (inflight (handleAnalyze
       (initial_state\<lparr>pastedText := lit ''terms'', podcastMode := True,
          results := [\<lparr>id' = JStr (lit ''1''), text' = JStr (lit ''old''), riskLevel = lit ''low'',
                       explanation = JStr (lit ''kept'')\<rparr>]\<rparr>)
       \<lparr>fetch = always (Resolved \<lparr>ok = True, statusText = lit ''OK'', blob = Some ''RIFF'',
                                   json = None\<rparr>),
        createObjectURL = always (lit ''blob:1''), hostToLowerCase = map lowerLatin1\<rparr>))
     = Some [\<lparr>id' = JStr (lit ''1''), text' = JStr (lit ''old''), riskLevel = lit ''low'',
              explanation = JStr (lit ''kept'')\<rparr>]
   \<and> audioUrl (final (handleAnalyze
       (initial_state\<lparr>pastedText := lit ''terms'', audioUrl := Some (lit ''blob:0'')\<rparr>)
       \<lparr>fetch = always (Resolved \<lparr>ok = True, statusText = lit ''OK'', blob = Some ''{}'',
                                   json = Some (JObj [(lit ''clauses'', JArr [])])\<rparr>),
        createObjectURL = always (lit ''blob:1''), hostToLowerCase = map lowerLatin1\<rparr>))
     = None
   \<and> audioUrl (final (handleAnalyze
       (initial_state\<lparr>pastedText := lit ''terms'', audioUrl := Some (lit ''blob:0'')\<rparr>)
       \<lparr>fetch = always Rejected, createObjectURL = always (lit ''blob:1''), hostToLowerCase = map lowerLatin1\<rparr>))
     = Some (lit ''blob:0'')"
  using alternate_result_cleared_on_success_only
    [of "initial_state\<lparr>pastedText := lit ''terms'', podcastMode := True,
          results := [\<lparr>id' = JStr (lit ''1''), text' = JStr (lit ''old''), riskLevel = lit ''low'',
                       explanation = JStr (lit ''kept'')\<rparr>]\<rparr>"
        "\<lparr>fetch = always (Resolved \<lparr>ok = True, statusText = lit ''OK'', blob = Some ''RIFF'',
                                   json = None\<rparr>),
        createObjectURL = always (lit ''blob:1''), hostToLowerCase = map lowerLatin1\<rparr>"]
    alternate_result_cleared_on_success_only
    [of "initial_state\<lparr>pastedText := lit ''terms'', audioUrl := Some (lit ''blob:0'')\<rparr>"
        "\<lparr>fetch = always (Resolved \<lparr>ok = True, statusText = lit ''OK'', blob = Some ''{}'',
                                   json = Some (JObj [(lit ''clauses'', JArr [])])\<rparr>),
        createObjectURL = always (lit ''blob:1''), hostToLowerCase = map lowerLatin1\<rparr>"]
    alternate_result_cleared_on_success_only
    [of "initial_state\<lparr>pastedText := lit ''terms'', audioUrl := Some (lit ''blob:0'')\<rparr>"
        "\<lparr>fetch = always Rejected, createObjectURL = always (lit ''blob:1''), hostToLowerCase = map lowerLatin1\<rparr>"]
  by (simp add: initial_state_def trim_def isWhiteSpace_def lit_def always_def
      transformedResults_def nullish_def)

subsection \<open>Normalisation of the payload\<close>

text \<open>
  C5. A payload whose records carry their values under \<^verbatim>\<open>clause_text\<close>,
  \<^verbatim>\<open>severity\<close> and \<^verbatim>\<open>reason\<close> is transformed to the same result (the same clauses, or
  the same exception) as the payload that carries the same values under \<^verbatim>\<open>text\<close>,
  \<^verbatim>\<open>risk_level\<close> and \<^verbatim>\<open>explanation\<close>, and \<^verbatim>\<open>handleAnalyze\<close> answered with the one
  does what it does answered with the other.
\<close>

theorem alternate_field_names_same_clauses:
  "transformedResults U (JObj [(lit ''clauses'', JArr (map alternate_record qs))])
     = transformedResults U (JObj [(lit ''clauses'', JArr (map primary_record qs))])
   \<and> handleAnalyze s
       (e\<lparr>fetch := always (Resolved (r\<lparr>json :=
              Some (JObj [(lit ''clauses'', JArr (map alternate_record qs))])\<rparr>))\<rparr>)
     = handleAnalyze s
       (e\<lparr>fetch := always (Resolved (r\<lparr>json :=
              Some (JObj [(lit ''clauses'', JArr (map primary_record qs))])\<rparr>))\<rparr>)"
  by (intro conjI transformedResults_alternate
      handleAnalyze_json_cong [OF transformedResults_alternate])

theorem alternate_field_names_same_clauses_witness:
  "transformedResults (map lowerLatin1) (JObj [(lit ''clauses'', JArr
       [JObj [(lit ''id'', JStr (lit ''7'')),
              (lit ''clause_text'', JStr (lit ''You waive all rights to a refund.'')),
              (lit ''severity'', JStr (lit ''HIGH'')),
              (lit ''reason'', JStr (lit ''You cannot get your money back.''))]])])
   = Inr [\<lparr>id' = JStr (lit ''7''), text' = JStr (lit ''You waive all rights to a refund.''),
           riskLevel = lit ''high'',
           explanation = JStr (lit ''You cannot get your money back.'')\<rparr>]"
  using alternate_field_names_same_clauses
    [of "map lowerLatin1"
        "[(Some (JStr (lit ''7'')), JStr (lit ''You waive all rights to a refund.''),
           JStr (lit ''HIGH''), JStr (lit ''You cannot get your money back.''))]"]
  by (simp add: transformedResults_def transformClause_def nullish_def or_else_def
      toLowerCase_def lowerBasicLatin_def lit_def)

text \<open>
  C6. In a payload that is transformed without an exception, the \<^verbatim>\<open>riskLevel\<close> of the
  clause at position \<open>i\<close> is \<^verbatim>\<open>toLowerCase\<close> of the record's \<^verbatim>\<open>risk_level\<close> when that
  is a non-empty string, and of its \<^verbatim>\<open>severity\<close> when \<^verbatim>\<open>risk_level\<close> is missing or
  falsy and \<^verbatim>\<open>severity\<close> is a non-empty string. This holds for every string \<open>c\<close> and
  every host: the value is not compared with \<^verbatim>\<open>high\<close>, \<^verbatim>\<open>medium\<close> or \<^verbatim>\<open>low\<close>. These
  clauses are the results of a standard submission that is answered with the payload.
\<close>

theorem riskLevel_is_lowercased_category:
  assumes "transformedResults U data = Inr cs"
    and "member data (lit ''clauses'') = JArr recs"
    and "i < length recs"
  shows "length cs = length recs
     \<and> (member (recs ! i) (lit ''risk_level'') = JStr c \<and> c \<noteq> [] \<longrightarrow>
          riskLevel (cs ! i) = toLowerCase U c)
     \<and> (\<not> truthy (member (recs ! i) (lit ''risk_level''))
          \<and> member (recs ! i) (lit ''severity'') = JStr c \<and> c \<noteq> [] \<longrightarrow>
          riskLevel (cs ! i) = toLowerCase U c)
     \<and> ((selectedFile s \<noteq> None \<or> trim (pastedText s) \<noteq> []) \<and> \<not> podcastMode s
          \<and> fetch e (request_of s) = Resolved r \<and> ok r \<and> json r = Some data
          \<and> hostToLowerCase e = U \<longrightarrow>
          results (final (handleAnalyze s e)) = cs)"
proof -
  have len: "length cs = length recs"
    using assms(1,2) by (rule transformedResults_nth)
  have "transformClause U (recs ! i) i = Inr (cs ! i)"
    using assms by (rule transformedResults_nth)
  then have level: "call_toLowerCase U
      (or_else (or_else (member (recs ! i) (lit ''risk_level''))
                  (member (recs ! i) (lit ''severity'')))
         (JStr (lit ''medium''))) = Inr (riskLevel (cs ! i))"
    by (rule transformClause_level)
  have handler: "results (final (handleAnalyze s e)) = cs"
    if h: "(selectedFile s \<noteq> None \<or> trim (pastedText s) \<noteq> []) \<and> \<not> podcastMode s
          \<and> fetch e (request_of s) = Resolved r \<and> ok r \<and> json r = Some data
          \<and> hostToLowerCase e = U"
  proof -
    from h assms(1) have "snd (try_block (s\<lparr>isAnalyzing := True\<rparr>) e)
        = Inr (s\<lparr>isAnalyzing := True, results := cs, audioUrl := None\<rparr>)"
      by (intro try_block_standard_success) auto
    with h show ?thesis
      using handleAnalyze_success [of s e] by simp
  qed
  have lower: "riskLevel (cs ! i) = toLowerCase U c"
    if "member (recs ! i) (lit ''risk_level'') = JStr c \<and> c \<noteq> []"
    using that level by (simp add: or_else_def)
  have lower': "riskLevel (cs ! i) = toLowerCase U c"
    if "\<not> truthy (member (recs ! i) (lit ''risk_level''))
          \<and> member (recs ! i) (lit ''severity'') = JStr c \<and> c \<noteq> []"
    using that level by (simp add: or_else_def)
  show ?thesis
    using len lower lower' handler by blast
qed

theorem riskLevel_is_lowercased_category_witness:
  "transformedResults (map lowerLatin1) (JObj [(lit ''clauses'', JArr
       [JObj [(lit ''id'', JStr (lit ''1'')),
              (lit ''text'', JStr (lit ''You waive all rights to a refund.'')),
              (lit ''risk_level'', JStr (lit ''HIGH'')),
              (lit ''explanation'', JStr (lit ''You cannot get your money back.''))],
        JObj [(lit ''risk_level'', JStr (lit '''')), (lit ''severity'', JStr (lit ''Critical''))],
        JObj [(lit ''risk_level'', JStr [0xC9, 0x4C, 0x45, 0x56, 0xC9])]])])
     = Inr [\<lparr>id' = JStr (lit ''1''), text' = JStr (lit ''You waive all rights to a refund.''),
             riskLevel = lit ''high'',
             explanation = JStr (lit ''You cannot get your money back.'')\<rparr>,
            \<lparr>id' = JStr (lit ''2''), text' = JStr (lit ''''), riskLevel = lit ''critical'',
             explanation = JStr (lit '''')\<rparr>,
            \<lparr>id' = JStr (lit ''3''), text' = JStr (lit ''''),
             riskLevel = [0xE9, 0x6C, 0x65, 0x76, 0xE9], explanation = JStr (lit '''')\<rparr>]
   \<and> lit ''critical'' \<notin> {lit ''high'', lit ''medium'', lit ''low''}
   \<and> results (final (handleAnalyze (initial_state\<lparr>pastedText := lit ''terms''\<rparr>)
         \<lparr>fetch = always (Resolved \<lparr>ok = True, statusText = lit ''OK'', blob = None,
             json = Some (JObj [(lit ''clauses'', JArr
               [JObj [(lit ''id'', JStr (lit ''1'')),
                      (lit ''text'', JStr (lit ''You waive all rights to a refund.'')),
                      (lit ''risk_level'', JStr (lit ''HIGH'')),
                      (lit ''explanation'', JStr (lit ''You cannot get your money back.''))],
                JObj [(lit ''risk_level'', JStr (lit '''')),
                      (lit ''severity'', JStr (lit ''Critical''))],
                JObj [(lit ''risk_level'', JStr [0xC9, 0x4C, 0x45, 0x56, 0xC9])]])])\<rparr>),
          createObjectURL = always (lit ''blob:1''), hostToLowerCase = map lowerLatin1\<rparr>))
     = [\<lparr>id' = JStr (lit ''1''), text' = JStr (lit ''You waive all rights to a refund.''),
         riskLevel = lit ''high'',
         explanation = JStr (lit ''You cannot get your money back.'')\<rparr>,
        \<lparr>id' = JStr (lit ''2''), text' = JStr (lit ''''), riskLevel = lit ''critical'',
         explanation = JStr (lit '''')\<rparr>,
        \<lparr>id' = JStr (lit ''3''), text' = JStr (lit ''''),
         riskLevel = [0xE9, 0x6C, 0x65, 0x76, 0xE9], explanation = JStr (lit '''')\<rparr>]"
proof -
  let ?ra = "JObj [(lit ''id'', JStr (lit ''1'')),
              (lit ''text'', JStr (lit ''You waive all rights to a refund.'')),
              (lit ''risk_level'', JStr (lit ''HIGH'')),
              (lit ''explanation'', JStr (lit ''You cannot get your money back.''))]"
  let ?rb = "JObj [(lit ''risk_level'', JStr (lit '''')),
                   (lit ''severity'', JStr (lit ''Critical''))]"
  let ?rc = "JObj [(lit ''risk_level'', JStr [0xC9, 0x4C, 0x45, 0x56, 0xC9])]"
  let ?data = "JObj [(lit ''clauses'', JArr [?ra, ?rb, ?rc])]"
  let ?U = "map lowerLatin1"
  let ?s = "initial_state\<lparr>pastedText := lit ''terms''\<rparr>"
  let ?resp = "\<lparr>ok = True, statusText = lit ''OK'', blob = None, json = Some ?data\<rparr>"
  let ?e = "\<lparr>fetch = always (Resolved ?resp), createObjectURL = always (lit ''blob:1''),
            hostToLowerCase = ?U\<rparr>"
  note rl = riskLevel_is_lowercased_category
  obtain cs where cs: "transformedResults ?U ?data = Inr cs"
    by (simp add: transformedResults_def transformClause_def nullish_def or_else_def)
  have m: "member ?data (lit ''clauses'') = JArr [?ra, ?rb, ?rc]"
    by simp
  have r0: "riskLevel (cs ! 0) = toLowerCase ?U (lit ''HIGH'')"
    using rl [OF cs m, of 0 "lit ''HIGH''"] by simp
  have r1: "riskLevel (cs ! Suc 0) = toLowerCase ?U (lit ''Critical'')"
    using rl [OF cs m, of "Suc 0" "lit ''Critical''"] by simp
  have r2: "riskLevel (cs ! Suc (Suc 0)) = toLowerCase ?U [0xC9, 0x4C, 0x45, 0x56, 0xC9]"
    using rl [OF cs m, of "Suc (Suc 0)" "[0xC9, 0x4C, 0x45, 0x56, 0xC9]"] by simp
  have low: "toLowerCase ?U (lit ''HIGH'') = lit ''high''"
    "toLowerCase ?U (lit ''Critical'') = lit ''critical''"
    "toLowerCase ?U [0xC9, 0x4C, 0x45, 0x56, 0xC9] = [0xE9, 0x6C, 0x65, 0x76, 0xE9]"
    by (simp_all add: toLowerCase_def lowerBasicLatin_def lowerLatin1_def lit_def)
  from cs have "transformedResults ?U ?data
     = Inr [\<lparr>id' = JStr (lit ''1''), text' = JStr (lit ''You waive all rights to a refund.''),
             riskLevel = riskLevel (cs ! 0),
             explanation = JStr (lit ''You cannot get your money back.'')\<rparr>,
            \<lparr>id' = JStr (lit ''2''), text' = JStr (lit ''''),
             riskLevel = riskLevel (cs ! Suc 0), explanation = JStr (lit '''')\<rparr>,
            \<lparr>id' = JStr (lit ''3''), text' = JStr (lit ''''),
             riskLevel = riskLevel (cs ! Suc (Suc 0)), explanation = JStr (lit '''')\<rparr>]"
    by (auto simp: transformedResults_def transformClause_def nullish_def or_else_def
        String_of.simps lit_def)
  then have A: "transformedResults ?U ?data
     = Inr [\<lparr>id' = JStr (lit ''1''), text' = JStr (lit ''You waive all rights to a refund.''),
             riskLevel = lit ''high'',
             explanation = JStr (lit ''You cannot get your money back.'')\<rparr>,
            \<lparr>id' = JStr (lit ''2''), text' = JStr (lit ''''), riskLevel = lit ''critical'',
             explanation = JStr (lit '''')\<rparr>,
            \<lparr>id' = JStr (lit ''3''), text' = JStr (lit ''''),
             riskLevel = [0xE9, 0x6C, 0x65, 0x76, 0xE9], explanation = JStr (lit '''')\<rparr>]"
    by (simp only: r0 r1 r2 low)
  have B: "results (final (handleAnalyze ?s ?e)) = cs"
    using rl [OF cs m, where i = 0 and s = ?s and e = ?e and r = ?resp]
    by (simp add: initial_state_def trim_def isWhiteSpace_def lit_def always_def)
  have C: "lit ''critical'' \<notin> {lit ''high'', lit ''medium'', lit ''low''}"
    by simp
  from A B C cs show ?thesis
    by (simp only: sum.inject) simp
qed



end
